theory Spec2Isabelle
  imports Main "HOL-Library.Sublist"
begin

section \<open>Python values and exceptions\<close>

text \<open>
  The services handle the vendor's JSON as Python values: \<open>None\<close>, booleans, integers,
  strings, lists and dicts. \<open>JNull\<close> is Python's \<open>None\<close>. A dict is an association list in
  insertion order, read with \<open>map_of\<close>; the dicts that \<open>response.json()\<close> builds have
  distinct keys. A \<open>char\<close> stands for one character of a Python string. JSON numbers with
  a fraction or an exponent become Python floats, which this development does not model:
  numbers are integers.
\<close>

datatype json =
    JNull
  | JBool bool
  | JInt int
  | JStr string
  | JList "json list"
  | JObj "(string \<times> json) list"

text \<open>
  The exceptions the modelled code can raise. \<open>Exception msg\<close> is the bare
  \<open>raise Exception(msg)\<close> of the services; the others are the builtin exceptions of the
  same name, with the missing key for \<open>KeyError\<close>.
\<close>

datatype py_error =
    KeyError string
  | TypeError
  | AttributeError
  | OverflowError
  | ValueError
  | Exception string

text \<open>Truth value of a Python value in a condition (\<open>if x\<close>, \<open>x and y\<close>).\<close>

fun py_truthy :: "json \<Rightarrow> bool" where
  "py_truthy JNull = False"
| "py_truthy (JBool b) = b"
| "py_truthy (JInt n) = (n \<noteq> 0)"
| "py_truthy (JStr s) = (s \<noteq> [])"
| "py_truthy (JList xs) = (xs \<noteq> [])"
| "py_truthy (JObj kvs) = (kvs \<noteq> [])"

text \<open>
  \<open>v[k]\<close> with a string key: a dict raises \<open>KeyError\<close> on a missing key; a list or a string
  wants an integer index and every other value is not subscriptable, both \<open>TypeError\<close>.
\<close>

fun getitem :: "json \<Rightarrow> string \<Rightarrow> py_error + json" where
  "getitem (JObj kvs) k = (case map_of kvs k of None \<Rightarrow> Inl (KeyError k) | Some v \<Rightarrow> Inr v)"
| "getitem _ k = Inl TypeError"

text \<open>\<open>v.get(k, d)\<close>: only a dict has the method \<open>get\<close>.\<close>

fun get_default :: "json \<Rightarrow> string \<Rightarrow> json \<Rightarrow> py_error + json" where
  "get_default (JObj kvs) k d = Inr (case map_of kvs k of None \<Rightarrow> d | Some v \<Rightarrow> v)"
| "get_default _ k d = Inl AttributeError"

text \<open>\<open>sub in s\<close> on strings: \<open>sub\<close> occurs in \<open>s\<close> as a contiguous piece.\<close>

fun has_substr :: "string \<Rightarrow> string \<Rightarrow> bool" where
  "has_substr sub [] = (sub = [])"
| "has_substr sub (c # cs) = (prefix sub (c # cs) \<or> has_substr sub cs)"

text \<open>
  \<open>k in v\<close> for a string \<open>k\<close>: key membership on a dict, element membership on a list,
  substring test on a string, \<open>TypeError\<close> on a value that is not iterable.
\<close>

fun py_in :: "string \<Rightarrow> json \<Rightarrow> py_error + bool" where
  "py_in k (JObj kvs) = Inr (map_of kvs k \<noteq> None)"
| "py_in k (JList xs) = Inr (JStr k \<in> set xs)"
| "py_in k (JStr s) = Inr (has_substr k s)"
| "py_in k _ = Inl TypeError"

text \<open>
  The elements a \<open>for\<close> loop visits: the items of a list, the keys of a dict, the
  characters of a string (each a string of length one); other values are not iterable.
\<close>

fun py_iter :: "json \<Rightarrow> py_error + json list" where
  "py_iter (JList xs) = Inr xs"
| "py_iter (JObj kvs) = Inr (map (\<lambda>kv. JStr (fst kv)) kvs)"
| "py_iter (JStr s) = Inr (map (\<lambda>c. JStr [c]) s)"
| "py_iter _ = Inl TypeError"

text \<open>
  \<open>f"{v}"\<close>: a string is inserted as it is. The text Python prints for any other value is
  the parameter \<open>render\<close>.
\<close>

fun py_str :: "(json \<Rightarrow> string) \<Rightarrow> json \<Rightarrow> string" where
  "py_str render (JStr s) = s"
| "py_str render v = render v"

section \<open>The lineage graph view (\<open>LineageService.get_lineage_graph\<close>)\<close>

record node =
  node_id :: json
  node_label :: json
  node_type :: json
  node_data :: json

record edge =
  edge_id :: string
  edge_source :: json
  edge_target :: json
  edge_label :: json
  edge_data :: json

record graph =
  nodes :: "node list"
  edges :: "edge list"

text \<open>
  The dict literal built for one entity. Its values are evaluated in the order written:
  \<open>entity['guid']\<close>, \<open>entity['attributes'].get('name', 'Unknown')\<close>, \<open>entity['typeName']\<close>;
  the first one that raises ends the projection.
\<close>

definition make_node :: "json \<Rightarrow> py_error + node" where
  "make_node entity =
     (case getitem entity ''guid'' of Inl e \<Rightarrow> Inl e | Inr g \<Rightarrow>
      (case getitem entity ''attributes'' of Inl e \<Rightarrow> Inl e | Inr a \<Rightarrow>
       (case get_default a ''name'' (JStr ''Unknown'') of Inl e \<Rightarrow> Inl e | Inr l \<Rightarrow>
        (case getitem entity ''typeName'' of Inl e \<Rightarrow> Inl e | Inr t \<Rightarrow>
           Inr \<lparr>node_id = g, node_label = l, node_type = t, node_data = entity\<rparr>))))"

text \<open>
  The dict literal built for one relation: the f-string reads both endpoint guids, then
  \<open>source\<close>, \<open>target\<close> and \<open>relation.get('relationshipType', 'Unknown')\<close>.
\<close>

definition make_edge :: "(json \<Rightarrow> string) \<Rightarrow> json \<Rightarrow> py_error + edge" where
  "make_edge render relation =
     (case getitem relation ''fromEntityGuid'' of Inl e \<Rightarrow> Inl e | Inr f \<Rightarrow>
      (case getitem relation ''toEntityGuid'' of Inl e \<Rightarrow> Inl e | Inr t \<Rightarrow>
       (case getitem relation ''fromEntityGuid'' of Inl e \<Rightarrow> Inl e | Inr src \<Rightarrow>
        (case getitem relation ''toEntityGuid'' of Inl e \<Rightarrow> Inl e | Inr tgt \<Rightarrow>
         (case get_default relation ''relationshipType'' (JStr ''Unknown'') of Inl e \<Rightarrow> Inl e | Inr l \<Rightarrow>
            Inr \<lparr>edge_id = py_str render f @ ''_'' @ py_str render t,
                 edge_source = src, edge_target = tgt, edge_label = l,
                 edge_data = relation\<rparr>)))))"

text \<open>The two \<open>for\<close> statements: each appends to the list built so far and stops at the first raise.\<close>

fun process_nodes :: "json list \<Rightarrow> node list \<Rightarrow> py_error + node list" where
  "process_nodes [] acc = Inr acc"
| "process_nodes (entity # rest) acc =
     (case make_node entity of Inl e \<Rightarrow> Inl e | Inr n \<Rightarrow> process_nodes rest (acc @ [n]))"

fun process_edges :: "(json \<Rightarrow> string) \<Rightarrow> json list \<Rightarrow> edge list \<Rightarrow> py_error + edge list" where
  "process_edges render [] acc = Inr acc"
| "process_edges render (relation # rest) acc =
     (case make_edge render relation of Inl e \<Rightarrow> Inl e
      | Inr d \<Rightarrow> process_edges render rest (acc @ [d]))"

text \<open>
  The part of \<open>get_lineage_graph\<close> after the call of \<open>get_lineage\<close>: the graph starts with
  empty \<open>nodes\<close> and \<open>edges\<close>; the entities are walked when \<open>'entities' in lineage_data\<close>,
  then the relations when \<open>'relations' in lineage_data\<close>.
\<close>

definition section_items :: "string \<Rightarrow> json \<Rightarrow> py_error + json list" where
  "section_items key lineage_data =
     (case py_in key lineage_data of Inl e \<Rightarrow> Inl e
      | Inr present \<Rightarrow>
          if present
          then (case getitem lineage_data key of Inl e \<Rightarrow> Inl e | Inr v \<Rightarrow> py_iter v)
          else Inr [])"

definition transform_graph :: "(json \<Rightarrow> string) \<Rightarrow> json \<Rightarrow> py_error + graph" where
  "transform_graph render lineage_data =
     (case section_items ''entities'' lineage_data of Inl e \<Rightarrow> Inl e | Inr es \<Rightarrow>
      (case process_nodes es [] of Inl e \<Rightarrow> Inl e | Inr ns \<Rightarrow>
       (case section_items ''relations'' lineage_data of Inl e \<Rightarrow> Inl e | Inr rs \<Rightarrow>
        (case process_edges render rs [] of Inl e \<Rightarrow> Inl e | Inr ds \<Rightarrow>
           Inr \<lparr>nodes = ns, edges = ds\<rparr>))))"

text \<open>
  \<open>get_lineage_graph\<close> itself: the argument is what \<open>self.get_lineage(...)\<close> did, the
  exception it raised or the payload it returned.
\<close>

definition get_lineage_graph :: "(json \<Rightarrow> string) \<Rightarrow> py_error + json \<Rightarrow> py_error + graph" where
  "get_lineage_graph render fetched =
     (case fetched of Inl e \<Rightarrow> Inl e | Inr lineage_data \<Rightarrow> transform_graph render lineage_data)"

section \<open>The token cache (\<open>AuthService\<close>)\<close>

subsection \<open>Time\<close>

text \<open>
  A naive \<open>datetime\<close> is the number of microseconds since \<open>datetime.min\<close>
  (0001-01-01 00:00:00); \<open>datetime.max\<close> is the last microsecond of the year 9999, day
  number 3652059. A \<open>timedelta\<close> is a number of microseconds too.
\<close>

type_synonym datetime = int

definition datetime_end :: int where
  "datetime_end = 3652059 * 86400 * 1000000"

text \<open>
  \<open>timedelta(seconds=x)\<close>: an integer (a boolean counts as 0 or 1) gives that many
  seconds, unless the number of whole days leaves the range of \<open>timedelta\<close>
  (\<open>OverflowError\<close>); any other value is a \<open>TypeError\<close>.
\<close>

fun timedelta_seconds :: "json \<Rightarrow> py_error + int" where
  "timedelta_seconds (JInt n) =
     (if \<bar>n div 86400\<bar> \<le> 999999999 then Inr (n * 1000000) else Inl OverflowError)"
| "timedelta_seconds (JBool b) = Inr (if b then 1000000 else 0)"
| "timedelta_seconds _ = Inl TypeError"

text \<open>\<open>t + d\<close> on a \<open>datetime\<close>: \<open>OverflowError\<close> when the sum leaves the years 1 to 9999.\<close>

definition datetime_add :: "datetime \<Rightarrow> int \<Rightarrow> py_error + datetime" where
  "datetime_add t d =
     (if 0 \<le> t + d \<and> t + d < datetime_end then Inr (t + d) else Inl OverflowError)"

subsection \<open>The service object and the outside world\<close>

text \<open>
  The fields of an \<open>AuthService\<close>: four values read from the configuration, each a string
  or \<open>None\<close>, and the token cache (\<open>_access_token\<close>, \<open>_token_expiry\<close>, \<open>_refresh_token\<close>,
  written without the leading underscore). The cached tokens are whatever the vendor's
  response held under the key, so they are Python values.
\<close>

record auth_service =
  api_url :: "string option"
  api_key :: "string option"
  client_id :: "string option"
  client_secret :: "string option"
  access_token :: json
  token_expiry :: "datetime option"
  refresh_token :: json

text \<open>\<open>__init__\<close>: \<open>config.get\<close> of the four keys, and an empty cache.\<close>

definition init :: "(string \<rightharpoonup> string) \<Rightarrow> auth_service" where
  "init config =
     \<lparr>api_url = config ''ATLAN_API_URL'',
      api_key = config ''ATLAN_API_KEY'',
      client_id = config ''ATLAN_CLIENT_ID'',
      client_secret = config ''ATLAN_CLIENT_SECRET'',
      access_token = JNull,
      token_expiry = None,
      refresh_token = JNull\<rparr>"

text \<open>
  An outbound call, as the service issues it: \<open>requests.post(url, data=payload)\<close> or
  \<open>requests.get(url, headers=headers)\<close>.
\<close>

datatype outbound =
    Post string "(string \<times> json) list"
  | Get string "(string \<times> string) list"

text \<open>
  What the world answers to the three statements \<open>requests.post(...)\<close>,
  \<open>response.raise_for_status()\<close>, \<open>response.json()\<close>: one of them raises a
  \<open>requests.exceptions.RequestException\<close> (with its text), one of them raises something
  else, or the body is parsed.
\<close>

datatype post_outcome =
    Request_exception string
  | Other_exception py_error
  | Json_body json

text \<open>What the world answers to \<open>requests.get(...)\<close>: an exception, or a status code.\<close>

datatype get_outcome =
    Get_raises py_error
  | Get_status int

text \<open>
  A method run gives the value returned or the exception raised, the object afterwards,
  and the outbound calls made, in order.
\<close>

type_synonym 'a run = "(py_error + 'a) \<times> auth_service \<times> outbound list"

definition result_of :: "'a run \<Rightarrow> py_error + 'a" where
  "result_of r = fst r"

definition state_of :: "'a run \<Rightarrow> auth_service" where
  "state_of r = fst (snd r)"

definition calls_of :: "'a run \<Rightarrow> outbound list" where
  "calls_of r = snd (snd r)"

definition of_config :: "string option \<Rightarrow> json" where
  "of_config v = (case v of None \<Rightarrow> JNull | Some s \<Rightarrow> JStr s)"

text \<open>\<open>s.split(sep)[0]\<close> for a non-empty \<open>sep\<close>: the text before its first occurrence.\<close>

fun split_head :: "string \<Rightarrow> string \<Rightarrow> string" where
  "split_head sep [] = []"
| "split_head sep (c # cs) = (if prefix sep (c # cs) then [] else c # split_head sep cs)"

text \<open>
  \<open>f"{self.api_url.split('/api')[0]}<path>"\<close>: \<open>None\<close> has no \<open>split\<close>. The statement
  stands before the \<open>try\<close> in every method that has it.
\<close>

definition endpoint :: "auth_service \<Rightarrow> string \<Rightarrow> py_error + string" where
  "endpoint s path =
     (case api_url s of None \<Rightarrow> Inl AttributeError
      | Some u \<Rightarrow> Inr (split_head ''/api'' u @ path))"

subsection \<open>Minting and refreshing\<close>

text \<open>
  The statements after \<open>data = response.json()\<close>, the same in \<open>_get_new_access_token\<close>
  and \<open>_refresh_access_token\<close>: \<open>data.get('access_token')\<close> and
  \<open>data.get('refresh_token')\<close> are stored one after the other, then
  \<open>datetime.now() + timedelta(seconds=data.get('expires_in', 3600))\<close>. An exception
  leaves the assignments made before it in place.
\<close>

definition store_token_data :: "auth_service \<Rightarrow> json \<Rightarrow> datetime \<Rightarrow> (py_error + unit) \<times> auth_service" where
  "store_token_data s data now =
     (case get_default data ''access_token'' JNull of Inl e \<Rightarrow> (Inl e, s) | Inr a \<Rightarrow>
      (case get_default data ''refresh_token'' JNull of
         Inl e \<Rightarrow> (Inl e, s\<lparr>access_token := a\<rparr>)
       | Inr r \<Rightarrow>
        (case get_default data ''expires_in'' (JInt 3600) of
           Inl e \<Rightarrow> (Inl e, s\<lparr>access_token := a, refresh_token := r\<rparr>)
         | Inr expires_in \<Rightarrow>
          (case timedelta_seconds expires_in of
             Inl e \<Rightarrow> (Inl e, s\<lparr>access_token := a, refresh_token := r\<rparr>)
           | Inr d \<Rightarrow>
            (case datetime_add now d of
               Inl e \<Rightarrow> (Inl e, s\<lparr>access_token := a, refresh_token := r\<rparr>)
             | Inr t \<Rightarrow>
                 (Inr (), s\<lparr>access_token := a, refresh_token := r,
                            token_expiry := Some t\<rparr>))))))"

text \<open>
  The \<open>try\<close> of both methods: only a \<open>RequestException\<close> is caught, and raised again as
  \<open>Exception(prefix + text)\<close>; every other exception passes through.
\<close>

definition token_request :: "auth_service \<Rightarrow> string \<Rightarrow> outbound \<Rightarrow> post_outcome \<Rightarrow> datetime \<Rightarrow> unit run" where
  "token_request s failure req reply now =
     (case reply of
        Request_exception m \<Rightarrow> (Inl (Exception (failure @ m)), s, [req])
      | Other_exception e \<Rightarrow> (Inl e, s, [req])
      | Json_body data \<Rightarrow>
          (case store_token_data s data now of (r, s') \<Rightarrow> (r, s', [req])))"

text \<open>\<open>_get_new_access_token\<close>: the client-credentials grant.\<close>

definition get_new_access_token :: "auth_service \<Rightarrow> post_outcome \<Rightarrow> datetime \<Rightarrow> unit run" where
  "get_new_access_token s reply now =
     (case endpoint s ''/oauth/token'' of Inl e \<Rightarrow> (Inl e, s, [])
      | Inr url \<Rightarrow>
          token_request s ''Authentication failed: ''
            (Post url [(''grant_type'', JStr ''client_credentials''),
                       (''client_id'', of_config (client_id s)),
                       (''client_secret'', of_config (client_secret s))])
            reply now)"

text \<open>\<open>_refresh_access_token\<close>: the refresh-token grant.\<close>

definition refresh_access_token :: "auth_service \<Rightarrow> post_outcome \<Rightarrow> datetime \<Rightarrow> unit run" where
  "refresh_access_token s reply now =
     (case endpoint s ''/oauth/token'' of Inl e \<Rightarrow> (Inl e, s, [])
      | Inr url \<Rightarrow>
          token_request s ''Token refresh failed: ''
            (Post url [(''grant_type'', JStr ''refresh_token''),
                       (''refresh_token'', refresh_token s),
                       (''client_id'', of_config (client_id s)),
                       (''client_secret'', of_config (client_secret s))])
            reply now)"

subsection \<open>\<open>get_access_token\<close>\<close>

text \<open>
  What the world does during one call of \<open>get_access_token\<close>: the clock read by the
  validity test, and for each of the two grants the answer to its request and the clock
  read after it. A part the call does not reach is not used.
\<close>

record token_env =
  now_check :: datetime
  refresh_reply :: post_outcome
  refresh_now :: datetime
  mint_reply :: post_outcome
  mint_now :: datetime

text \<open>
  The test \<open>self._access_token and self._token_expiry and datetime.now() < self._token_expiry\<close>.
\<close>

definition token_valid :: "auth_service \<Rightarrow> datetime \<Rightarrow> bool" where
  "token_valid s now =
     (py_truthy (access_token s) \<and>
      (case token_expiry s of None \<Rightarrow> False | Some t \<Rightarrow> now < t))"

text \<open>The last two lines: \<open>self._get_new_access_token()\<close>, then \<open>return self._access_token\<close>.\<close>

definition mint_and_return :: "auth_service \<Rightarrow> token_env \<Rightarrow> json run" where
  "mint_and_return s env =
     (case get_new_access_token s (mint_reply env) (mint_now env) of
        (Inl e, s', calls) \<Rightarrow> (Inl e, s', calls)
      | (Inr u, s', calls) \<Rightarrow> (Inr (access_token s'), s', calls))"

definition get_access_token :: "auth_service \<Rightarrow> token_env \<Rightarrow> json run" where
  "get_access_token s env =
     (if token_valid s (now_check env) then (Inr (access_token s), s, [])
      else if py_truthy (refresh_token s)
      then (case refresh_access_token s (refresh_reply env) (refresh_now env) of
              (Inr u, s1, calls1) \<Rightarrow> (Inr (access_token s1), s1, calls1)
            | (Inl e, s1, calls1) \<Rightarrow>
                (case mint_and_return s1 env of
                   (r, s2, calls2) \<Rightarrow> (r, s2, calls1 @ calls2)))
      else mint_and_return s env)"

text \<open>
  A sequence of calls on the same object, one environment for each; a call that raises
  does not keep the caller from calling again.
\<close>

fun get_access_token_seq :: "auth_service \<Rightarrow> token_env list \<Rightarrow> (py_error + json) list \<times> auth_service \<times> outbound list" where
  "get_access_token_seq s [] = ([], s, [])"
| "get_access_token_seq s (env # envs) =
     (case get_access_token s env of
        (r, s1, calls1) \<Rightarrow>
          (case get_access_token_seq s1 envs of
             (rs, s2, calls2) \<Rightarrow> (r # rs, s2, calls1 @ calls2)))"

subsection \<open>\<open>get_headers\<close> and \<open>validate_token\<close>\<close>

text \<open>
  \<open>get_headers\<close>: \<open>if self.api_key\<close> holds for a key that is a non-empty string;
  otherwise the bearer token comes from \<open>get_access_token\<close>, whose exception passes
  through.
\<close>

definition get_headers :: "(json \<Rightarrow> string) \<Rightarrow> auth_service \<Rightarrow> token_env \<Rightarrow> (string \<times> string) list run" where
  "get_headers render s env =
     (let headers = [(''Content-Type'', ''application/json''), (''Accept'', ''application/json'')]
      in case api_key s of
           Some (c # cs) \<Rightarrow> (Inr (headers @ [(''X-Atlan-API-Key'', c # cs)]), s, [])
         | _ \<Rightarrow>
             (case get_access_token s env of
                (Inl e, s', calls) \<Rightarrow> (Inl e, s', calls)
              | (Inr tok, s', calls) \<Rightarrow>
                  (Inr (headers @ [(''Authorization'', ''Bearer '' @ py_str render tok)]),
                   s', calls)))"

text \<open>
  \<open>validate_token\<close>: the URL is built before the \<open>try\<close>; inside it a bare \<open>except\<close>
  turns every exception of the request into \<open>False\<close>.
\<close>

definition validate_token :: "(json \<Rightarrow> string) \<Rightarrow> auth_service \<Rightarrow> json \<Rightarrow> get_outcome \<Rightarrow> bool run" where
  "validate_token render s token outcome =
     (case endpoint s ''/api/v2/users/current'' of Inl e \<Rightarrow> (Inl e, s, [])
      | Inr url \<Rightarrow>
          (let req = Get url [(''Authorization'', ''Bearer '' @ py_str render token)]
           in case outcome of
                Get_raises e \<Rightarrow> (Inr False, s, [req])
              | Get_status code \<Rightarrow> (Inr (code = 200), s, [req])))"

section \<open>Vocabulary of the properties\<close>

subsection \<open>Payloads shaped as the data model describes them\<close>

text \<open>
  The value under a key of a mapping, if the value is a mapping and has the key; the
  list under a key of the payload, empty when the key is missing.
\<close>

definition dict_field :: "json \<Rightarrow> string \<Rightarrow> json option" where
  "dict_field v k = (case v of JObj kvs \<Rightarrow> map_of kvs k | _ \<Rightarrow> None)"

definition items_of :: "json \<Rightarrow> string \<Rightarrow> json list" where
  "items_of d key = (case dict_field d key of Some (JList xs) \<Rightarrow> xs | _ \<Rightarrow> [])"

definition is_dict :: "json \<Rightarrow> bool" where
  "is_dict v = (case v of JObj kvs \<Rightarrow> True | _ \<Rightarrow> False)"

text \<open>
  An entity with \<open>guid\<close>, \<open>typeName\<close> and a mapping \<open>attributes\<close>; a relation with both
  endpoint guids. \<open>attributes.name\<close> and \<open>relationshipType\<close> may be missing.
\<close>

definition entity_ok :: "json \<Rightarrow> bool" where
  "entity_ok e =
     (dict_field e ''guid'' \<noteq> None \<and> dict_field e ''typeName'' \<noteq> None \<and>
      (case dict_field e ''attributes'' of Some a \<Rightarrow> is_dict a | None \<Rightarrow> False))"

definition relation_ok :: "json \<Rightarrow> bool" where
  "relation_ok r =
     (dict_field r ''fromEntityGuid'' \<noteq> None \<and> dict_field r ''toEntityGuid'' \<noteq> None)"

text \<open>A key of the payload is missing, or holds a list whose items all pass \<open>ok\<close>.\<close>

definition section_ok :: "(json \<Rightarrow> bool) \<Rightarrow> string \<Rightarrow> json \<Rightarrow> bool" where
  "section_ok ok key d =
     (case dict_field d key of
        None \<Rightarrow> True
      | Some (JList xs) \<Rightarrow> list_all ok xs
      | Some _ \<Rightarrow> False)"

definition payload_ok :: "json \<Rightarrow> bool" where
  "payload_ok d =
     (is_dict d \<and> section_ok entity_ok ''entities'' d \<and> section_ok relation_ok ''relations'' d)"

text \<open>A mapping whose \<open>entities\<close> and \<open>relations\<close>, where present, are lists of anything.\<close>

definition list_sections :: "json \<Rightarrow> bool" where
  "list_sections d =
     (is_dict d \<and> section_ok (\<lambda>v. True) ''entities'' d \<and> section_ok (\<lambda>v. True) ''relations'' d)"

text \<open>
  The node and the edge that the specification assigns to an entity and to a relation,
  written from its words and not from the code.
\<close>

definition node_view :: "json \<Rightarrow> node" where
  "node_view e =
     \<lparr>node_id = the (dict_field e ''guid''),
      node_label = (case dict_field (the (dict_field e ''attributes'')) ''name'' of
                      None \<Rightarrow> JStr ''Unknown'' | Some v \<Rightarrow> v),
      node_type = the (dict_field e ''typeName''),
      node_data = e\<rparr>"

definition edge_view :: "(json \<Rightarrow> string) \<Rightarrow> json \<Rightarrow> edge" where
  "edge_view render r =
     \<lparr>edge_id = py_str render (the (dict_field r ''fromEntityGuid'')) @ ''_'' @
                py_str render (the (dict_field r ''toEntityGuid'')),
      edge_source = the (dict_field r ''fromEntityGuid''),
      edge_target = the (dict_field r ''toEntityGuid''),
      edge_label = (case dict_field r ''relationshipType'' of
                      None \<Rightarrow> JStr ''Unknown'' | Some v \<Rightarrow> v),
      edge_data = r\<rparr>"

text \<open>The graph view of a payload: its entities and relations, mapped in payload order.\<close>

definition graph_view :: "(json \<Rightarrow> string) \<Rightarrow> json \<Rightarrow> graph" where
  "graph_view render d =
     \<lparr>nodes = map node_view (items_of d ''entities''),
      edges = map (edge_view render) (items_of d ''relations'')\<rparr>"

subsection \<open>Grants and lifetimes\<close>

definition is_refresh_grant :: "outbound \<Rightarrow> bool" where
  "is_refresh_grant c =
     (case c of
        Post url payload \<Rightarrow> map_of payload ''grant_type'' = Some (JStr ''refresh_token'')
      | Get url headers \<Rightarrow> False)"

definition is_credential_grant :: "outbound \<Rightarrow> bool" where
  "is_credential_grant c =
     (case c of
        Post url payload \<Rightarrow> map_of payload ''grant_type'' = Some (JStr ''client_credentials'')
      | Get url headers \<Rightarrow> False)"

text \<open>
  The \<open>expires_in\<close> of a token response, 3600 when the key is missing, and the number of
  seconds such a value stands for.
\<close>

definition expires_in_of :: "(string \<times> json) list \<Rightarrow> json" where
  "expires_in_of kvs = (case map_of kvs ''expires_in'' of None \<Rightarrow> JInt 3600 | Some v \<Rightarrow> v)"

definition seconds_of :: "json \<Rightarrow> int option" where
  "seconds_of v =
     (case v of JInt n \<Rightarrow> Some n | JBool b \<Rightarrow> Some (if b then 1 else 0) | _ \<Rightarrow> None)"

subsection \<open>The states a service can be in\<close>

text \<open>
  The cache is written by the methods of the service only: a service is created by
  \<open>__init__\<close> and then changed by calls of its public methods.
\<close>

inductive reachable :: "auth_service \<Rightarrow> bool" where
  created: "reachable (init config)"
| token: "reachable s \<Longrightarrow> reachable (state_of (get_access_token s env))"
| headers: "reachable s \<Longrightarrow> reachable (state_of (get_headers render s env))"
| validated: "reachable s \<Longrightarrow> reachable (state_of (validate_token render s tok outcome))"

definition cache_empty :: "auth_service \<Rightarrow> bool" where
  "cache_empty s =
     (access_token s = JNull \<and> refresh_token s = JNull \<and> token_expiry s = None)"

subsection \<open>Concrete inputs\<close>

text \<open>A rendering that agrees with Python on \<open>None\<close> and on the booleans.\<close>

fun render_atom :: "json \<Rightarrow> string" where
  "render_atom JNull = ''None''"
| "render_atom (JBool b) = (if b then ''True'' else ''False'')"
| "render_atom v = []"

text \<open>The example payload of the specification, and the same entity without its \<open>guid\<close>.\<close>

definition example_payload :: json where
  "example_payload =
     JObj [(''entities'',
              JList [JObj [(''guid'', JStr ''a1''), (''typeName'', JStr ''Table''),
                           (''attributes'', JObj [(''name'', JStr ''orders'')])]]),
           (''relations'',
              JList [JObj [(''fromEntityGuid'', JStr ''a1''), (''toEntityGuid'', JStr ''a2''),
                           (''relationshipType'', JStr ''DataFlow'')]])]"

definition payload_without_guid :: json where
  "payload_without_guid =
     JObj [(''entities'',
              JList [JObj [(''typeName'', JStr ''Table''),
                           (''attributes'', JObj [(''name'', JStr ''orders'')])]])]"

definition entities_only :: "(string \<times> json) list" where
  "entities_only =
     [(''entities'',
         JList [JObj [(''guid'', JStr ''a1''), (''typeName'', JStr ''Table''),
                      (''attributes'', JObj [])]])]"

definition relations_only :: "(string \<times> json) list" where
  "relations_only =
     [(''relations'',
         JList [JObj [(''fromEntityGuid'', JStr ''a1''), (''toEntityGuid'', JStr ''a2'')]])]"

text \<open>
  A service configured with a base URL only; a token response; a world in which the
  refresh request is refused; the cache after a mint at time 1000, and a cache whose
  token expired at time 500, which is what a first call at that time leaves when the
  vendor grants a lifetime of 0 seconds.
\<close>

definition example_config :: "string \<rightharpoonup> string" where
  "example_config = [''ATLAN_API_URL'' \<mapsto> ''https://tenant.atlan.com/api/meta'']"

definition example_mint_post :: outbound where
  "example_mint_post =
     Post ''https://tenant.atlan.com/oauth/token''
       [(''grant_type'', JStr ''client_credentials''), (''client_id'', JNull),
        (''client_secret'', JNull)]"

definition example_refresh_post :: outbound where
  "example_refresh_post =
     Post ''https://tenant.atlan.com/oauth/token''
       [(''grant_type'', JStr ''refresh_token''), (''refresh_token'', JStr ''r0''),
        (''client_id'', JNull), (''client_secret'', JNull)]"

definition example_body :: "(string \<times> json) list" where
  "example_body =
     [(''access_token'', JStr ''t1''), (''refresh_token'', JStr ''r1''),
      (''expires_in'', JInt 60)]"

definition example_world :: "datetime \<Rightarrow> post_outcome \<Rightarrow> token_env" where
  "example_world now mint =
     \<lparr>now_check = now,
      refresh_reply = Request_exception ''503 Server Error'',
      refresh_now = now,
      mint_reply = mint,
      mint_now = now\<rparr>"

definition example_cached :: auth_service where
  "example_cached =
     (init example_config)\<lparr>access_token := JStr ''t1'', refresh_token := JStr ''r1'',
                            token_expiry := Some 60001000\<rparr>"

definition example_stale :: auth_service where
  "example_stale =
     (init example_config)\<lparr>access_token := JStr ''t0'', refresh_token := JStr ''r0'',
                            token_expiry := Some 500\<rparr>"

definition example_first_world :: token_env where
  "example_first_world =
     \<lparr>now_check = 500,
      refresh_reply = Request_exception ''503 Server Error'',
      refresh_now = 500,
      mint_reply = Json_body (JObj [(''access_token'', JStr ''t0''),
                                    (''refresh_token'', JStr ''r0''),
                                    (''expires_in'', JInt 0)]),
      mint_now = 500\<rparr>"

definition example_keyed :: auth_service where
  "example_keyed = (init example_config)\<lparr>api_key := Some ''k-123''\<rparr>"

lemmas example_defs = example_config_def example_mint_post_def example_refresh_post_def
  example_body_def example_world_def example_cached_def example_stale_def example_keyed_def
  example_first_world_def
  init_def

lemmas token_defs = get_access_token_def token_valid_def mint_and_return_def
  get_new_access_token_def refresh_access_token_def endpoint_def token_request_def
  of_config_def store_token_data_def datetime_add_def datetime_end_def

lemmas lineage_defs = get_lineage_graph_def transform_graph_def section_items_def
  make_node_def make_edge_def

lemmas shape_defs = payload_ok_def section_ok_def entity_ok_def relation_ok_def dict_field_def
  is_dict_def items_of_def node_view_def edge_view_def

section \<open>The projection of a lineage payload\<close>

lemma make_node_ok: "entity_ok e \<Longrightarrow> make_node e = Inr (node_view e)"
  by (cases e)
     (auto simp: entity_ok_def make_node_def node_view_def dict_field_def is_dict_def
        split: option.splits json.splits)

lemma make_edge_ok: "relation_ok r \<Longrightarrow> make_edge render r = Inr (edge_view render r)"
  by (cases r)
     (auto simp: relation_ok_def make_edge_def edge_view_def dict_field_def
        split: option.splits json.splits)

lemma make_node_Inr: "make_node e = Inr n \<Longrightarrow> entity_ok e"
  by (cases e)
     (auto simp: entity_ok_def make_node_def dict_field_def is_dict_def
        split: option.splits json.splits sum.splits)

lemma make_edge_Inr: "make_edge render r = Inr d \<Longrightarrow> relation_ok r"
  by (cases r)
     (auto simp: relation_ok_def make_edge_def dict_field_def
        split: option.splits json.splits sum.splits)

text \<open>Both walks, by induction on the items with the list built so far generalised.\<close>

lemma process_nodes_ok:
  "list_all entity_ok es \<Longrightarrow> process_nodes es acc = Inr (acc @ map node_view es)"
  by (induction es arbitrary: acc) (simp_all add: make_node_ok)

lemma process_edges_ok:
  "list_all relation_ok rs \<Longrightarrow>
     process_edges render rs acc = Inr (acc @ map (edge_view render) rs)"
  by (induction rs arbitrary: acc) (simp_all add: make_edge_ok)

lemma process_nodes_Inr: "process_nodes es acc = Inr ns \<Longrightarrow> list_all entity_ok es"
  by (induction es arbitrary: acc) (auto split: sum.splits dest: make_node_Inr)

lemma process_edges_Inr: "process_edges render rs acc = Inr ds \<Longrightarrow> list_all relation_ok rs"
  by (induction rs arbitrary: acc) (auto split: sum.splits dest: make_edge_Inr)

lemma section_items_ok:
  "is_dict d \<Longrightarrow> section_ok ok key d \<Longrightarrow>
     section_items key d = Inr (items_of d key) \<and> list_all ok (items_of d key)"
  by (cases d)
     (auto simp: section_ok_def section_items_def items_of_def dict_field_def is_dict_def
        split: option.splits json.splits)

lemma section_ok_items:
  "section_ok (\<lambda>v. True) key d \<Longrightarrow> list_all ok (items_of d key) \<Longrightarrow> section_ok ok key d"
  by (auto simp: section_ok_def items_of_def split: option.splits json.splits)

lemma transform_graph_ok:
  assumes "payload_ok d"
  shows "transform_graph render d =
           Inr \<lparr>nodes = map node_view (items_of d ''entities''),
                edges = map (edge_view render) (items_of d ''relations'')\<rparr>"
proof -
  from assms have d: "is_dict d" and en: "section_ok entity_ok ''entities'' d"
    and re: "section_ok relation_ok ''relations'' d"
    by (simp_all add: payload_ok_def)
  note E = section_items_ok [OF d en] and R = section_items_ok [OF d re]
  show ?thesis
    by (simp add: transform_graph_def E R process_nodes_ok process_edges_ok)
qed

text \<open>
  A section that was walked without a raise held mappings only, so it was the list under
  the key (or the key was missing, or held an empty dict or string, and nothing was
  walked).
\<close>

lemma entity_ok_dict: "entity_ok e \<Longrightarrow> is_dict e"
  by (cases e) (auto simp: entity_ok_def dict_field_def is_dict_def)

lemma relation_ok_dict: "relation_ok e \<Longrightarrow> is_dict e"
  by (cases e) (auto simp: relation_ok_def dict_field_def is_dict_def)

lemma list_all_weaken: "list_all P xs \<Longrightarrow> (\<And>x. P x \<Longrightarrow> Q x) \<Longrightarrow> list_all Q xs"
  by (induction xs) auto

lemma py_iter_dicts:
  "py_iter v = Inr xs \<Longrightarrow> list_all is_dict xs \<Longrightarrow>
     xs = (case v of JList ys \<Rightarrow> ys | _ \<Rightarrow> [])"
  by (cases v; cases xs) (auto simp: is_dict_def)

lemma section_items_Inr:
  assumes "section_items key d = Inr xs" and "list_all is_dict xs"
  shows "xs = items_of d key"
proof (cases d)
  case (JObj kvs)
  show ?thesis
  proof (cases "map_of kvs key")
    case None
    with JObj assms show ?thesis
      by (simp add: section_items_def items_of_def dict_field_def)
  next
    case (Some v)
    with JObj assms have "py_iter v = Inr xs"
      by (simp add: section_items_def)
    from py_iter_dicts [OF this assms(2)] JObj Some show ?thesis
      by (simp add: items_of_def dict_field_def split: json.splits)
  qed
qed (use assms in \<open>auto simp: section_items_def items_of_def dict_field_def split: if_splits\<close>)

lemma transform_graph_Inr:
  assumes "transform_graph render d = Inr g"
  shows "g = graph_view render d"
proof -
  from assms obtain es ns rs ds where
    E: "section_items ''entities'' d = Inr es" and N: "process_nodes es [] = Inr ns"
    and R: "section_items ''relations'' d = Inr rs"
    and D: "process_edges render rs [] = Inr ds"
    and g: "g = \<lparr>nodes = ns, edges = ds\<rparr>"
    by (auto simp: transform_graph_def split: sum.splits)
  from process_nodes_Inr [OF N] have eo: "list_all entity_ok es" .
  from process_edges_Inr [OF D] have ro: "list_all relation_ok rs" .
  from eo have "list_all is_dict es" by (rule list_all_weaken) (rule entity_ok_dict)
  from section_items_Inr [OF E this] have es: "es = items_of d ''entities''" .
  from ro have "list_all is_dict rs" by (rule list_all_weaken) (rule relation_ok_dict)
  from section_items_Inr [OF R this] have rs: "rs = items_of d ''relations''" .
  from N eo have "ns = map node_view es" by (simp add: process_nodes_ok)
  moreover from D ro have "ds = map (edge_view render) rs" by (simp add: process_edges_ok)
  ultimately show ?thesis using g es rs by (simp add: graph_view_def)
qed

text \<open>
  Claim C4. On a payload shaped as the data model describes it (a mapping whose entities
  carry \<open>guid\<close>, \<open>typeName\<close> and \<open>attributes\<close>, and whose relations carry both endpoint
  guids), the projection returns the graph view: the nodes are the entities mapped one by
  one, in payload order, to \<open>id = guid\<close>, \<open>type = typeName\<close>, \<open>label = attributes.name\<close> or
  \<open>"Unknown"\<close> when the name is missing, and the edges are the relations mapped one by
  one, in payload order, to \<open>id = fromEntityGuid + "_" + toEntityGuid\<close>, the two endpoints
  as source and target, and \<open>label = relationshipType\<close> or \<open>"Unknown"\<close>. And on any
  payload whatever, a graph that the projection returns is this graph view. Being a \<open>map\<close>
  over the payload's lists, it drops, merges and reorders nothing.
\<close>

theorem projection_one_to_one:
  "(payload_ok d \<longrightarrow> get_lineage_graph render (Inr d) = Inr (graph_view render d))
 \<and> (get_lineage_graph render (Inr d') = Inr g \<longrightarrow>
      g = graph_view render d' \<and>
      length (nodes g) = length (items_of d' ''entities'') \<and>
      length (edges g) = length (items_of d' ''relations''))"
proof (intro conjI impI)
  assume "payload_ok d"
  then show "get_lineage_graph render (Inr d) = Inr (graph_view render d)"
    by (simp add: get_lineage_graph_def transform_graph_ok graph_view_def)
next
  assume "get_lineage_graph render (Inr d') = Inr g"
  then have g: "g = graph_view render d'"
    by (simp add: get_lineage_graph_def transform_graph_Inr)
  then show "g = graph_view render d'" .
  from g show "length (nodes g) = length (items_of d' ''entities'')"
    and "length (edges g) = length (items_of d' ''relations'')"
    by (simp_all add: graph_view_def)
qed

theorem projection_one_to_one_witness:
  "payload_ok example_payload \<and>
   get_lineage_graph render_atom (Inr example_payload) =
     Inr \<lparr>nodes = [\<lparr>node_id = JStr ''a1'', node_label = JStr ''orders'',
                     node_type = JStr ''Table'',
                     node_data = JObj [(''guid'', JStr ''a1''), (''typeName'', JStr ''Table''),
                                       (''attributes'', JObj [(''name'', JStr ''orders'')])]\<rparr>],
          edges = [\<lparr>edge_id = ''a1_a2'', edge_source = JStr ''a1'', edge_target = JStr ''a2'',
                     edge_label = JStr ''DataFlow'',
                     edge_data = JObj [(''fromEntityGuid'', JStr ''a1''),
                                       (''toEntityGuid'', JStr ''a2''),
                                       (''relationshipType'', JStr ''DataFlow'')]\<rparr>]\<rparr>
   \<and> get_lineage_graph render_atom (Inr (JObj entities_only)) =
       Inr (graph_view render_atom (JObj entities_only))
   \<and> length (nodes (graph_view render_atom (JObj entities_only))) = 1"
proof -
  have h: "payload_ok example_payload"
    by (simp add: example_payload_def shape_defs)
  have e: "get_lineage_graph render_atom (Inr (JObj entities_only)) =
      Inr (graph_view render_atom (JObj entities_only))"
    by (simp add: entities_only_def lineage_defs graph_view_def shape_defs)
  from projection_one_to_one [of example_payload render_atom "JObj entities_only"
      "graph_view render_atom (JObj entities_only)"] h e
  have "get_lineage_graph render_atom (Inr example_payload) =
      Inr (graph_view render_atom example_payload)"
    and "length (nodes (graph_view render_atom (JObj entities_only))) =
      length (items_of (JObj entities_only) ''entities'')"
    by simp_all
  with h e show ?thesis
    by (simp add: example_payload_def entities_only_def graph_view_def shape_defs)
qed

text \<open>
  Claim C5, as the code has it. Not every field is optional: \<open>guid\<close>, \<open>typeName\<close>,
  \<open>attributes\<close>, \<open>fromEntityGuid\<close> and \<open>toEntityGuid\<close> are read with a subscript, and an
  entity without \<open>guid\<close> ends the projection with \<open>KeyError\<close>.
\<close>

theorem projection_needs_guid:
  "get_lineage_graph render_atom (Inr payload_without_guid) = Inl (KeyError ''guid'')"
  by (simp add: payload_without_guid_def lineage_defs)

text \<open>
  Claim C5, amended. The projection produces a graph without error for every payload
  shaped as the data model describes it, where only the keys \<open>entities\<close> and \<open>relations\<close>,
  \<open>attributes.name\<close> and \<open>relationshipType\<close> may be missing; and on a mapping whose
  \<open>entities\<close> and \<open>relations\<close> are lists it produces a graph only if every entity has
  \<open>guid\<close>, \<open>typeName\<close> and a mapping \<open>attributes\<close> and every relation has both endpoint
  guids.
\<close>

theorem projection_total_on_required_fields:
  "(payload_ok d \<longrightarrow> (\<exists>g. get_lineage_graph render (Inr d) = Inr g))
 \<and> (list_sections d \<and> get_lineage_graph render (Inr d) = Inr g' \<longrightarrow> payload_ok d)"
proof (intro conjI impI)
  assume "payload_ok d"
  then show "\<exists>g. get_lineage_graph render (Inr d) = Inr g"
    by (simp add: get_lineage_graph_def transform_graph_ok)
next
  assume a: "list_sections d \<and> get_lineage_graph render (Inr d) = Inr g'"
  then have d: "is_dict d" and en: "section_ok (\<lambda>v. True) ''entities'' d"
    and re: "section_ok (\<lambda>v. True) ''relations'' d"
    by (simp_all add: list_sections_def)
  note E = section_items_ok [OF d en] and R = section_items_ok [OF d re]
  from a have "list_all entity_ok (items_of d ''entities'')"
    and "list_all relation_ok (items_of d ''relations'')"
    by (auto simp: get_lineage_graph_def transform_graph_def E R split: sum.splits
        dest: process_nodes_Inr process_edges_Inr)
  with d en re show "payload_ok d"
    by (simp add: payload_ok_def section_ok_items)
qed

theorem projection_total_on_required_fields_witness:
  "payload_ok example_payload \<and> list_sections example_payload \<and>
   (\<exists>g. get_lineage_graph render_atom (Inr example_payload) = Inr g) \<and>
   list_sections payload_without_guid \<and> \<not> payload_ok payload_without_guid \<and>
   (\<forall>g. get_lineage_graph render_atom (Inr payload_without_guid) \<noteq> Inr g)"
proof -
  have h: "payload_ok example_payload"
    by (simp add: example_payload_def shape_defs)
  have l: "list_sections example_payload"
    by (simp add: example_payload_def list_sections_def shape_defs)
  have l': "list_sections payload_without_guid"
    by (simp add: payload_without_guid_def list_sections_def shape_defs)
  have n: "\<not> payload_ok payload_without_guid"
    by (simp add: payload_without_guid_def shape_defs)
  from projection_total_on_required_fields [of example_payload render_atom] h
  have e: "\<exists>g. get_lineage_graph render_atom (Inr example_payload) = Inr g" by blast
  from projection_total_on_required_fields [of payload_without_guid render_atom] l' n
  have "\<forall>g. get_lineage_graph render_atom (Inr payload_without_guid) \<noteq> Inr g" by blast
  with h l e l' n show ?thesis by blast
qed

text \<open>
  Claim C8. The empty payload \<open>{}\<close> projects to \<open>{nodes: [], edges: []}\<close>. A payload
  without the key \<open>entities\<close> gives an empty node list next to the edges of its relations,
  and a payload without the key \<open>relations\<close> gives an empty edge list next to the nodes of
  its entities: the missing key is no error.
\<close>

theorem missing_sections_are_empty:
  "get_lineage_graph render (Inr (JObj [])) = Inr \<lparr>nodes = [], edges = []\<rparr>
 \<and> (map_of kvs ''entities'' = None \<and> section_ok relation_ok ''relations'' (JObj kvs) \<longrightarrow>
      get_lineage_graph render (Inr (JObj kvs)) =
        Inr \<lparr>nodes = [], edges = map (edge_view render) (items_of (JObj kvs) ''relations'')\<rparr>)
 \<and> (map_of kvs' ''relations'' = None \<and> section_ok entity_ok ''entities'' (JObj kvs') \<longrightarrow>
      get_lineage_graph render (Inr (JObj kvs')) =
        Inr \<lparr>nodes = map node_view (items_of (JObj kvs') ''entities''), edges = []\<rparr>)"
proof (intro conjI impI)
  show "get_lineage_graph render (Inr (JObj [])) = Inr \<lparr>nodes = [], edges = []\<rparr>"
    by (simp add: get_lineage_graph_def transform_graph_def section_items_def)
next
  assume a: "map_of kvs ''entities'' = None \<and> section_ok relation_ok ''relations'' (JObj kvs)"
  then have "payload_ok (JObj kvs)" and "items_of (JObj kvs) ''entities'' = []"
    by (simp_all add: payload_ok_def is_dict_def section_ok_def items_of_def dict_field_def)
  then show "get_lineage_graph render (Inr (JObj kvs)) =
        Inr \<lparr>nodes = [], edges = map (edge_view render) (items_of (JObj kvs) ''relations'')\<rparr>"
    by (simp add: get_lineage_graph_def transform_graph_ok)
next
  assume a: "map_of kvs' ''relations'' = None \<and> section_ok entity_ok ''entities'' (JObj kvs')"
  then have "payload_ok (JObj kvs')" and "items_of (JObj kvs') ''relations'' = []"
    by (simp_all add: payload_ok_def is_dict_def section_ok_def items_of_def dict_field_def)
  then show "get_lineage_graph render (Inr (JObj kvs')) =
        Inr \<lparr>nodes = map node_view (items_of (JObj kvs') ''entities''), edges = []\<rparr>"
    by (simp add: get_lineage_graph_def transform_graph_ok)
qed

theorem missing_sections_are_empty_witness:
  "map_of relations_only ''entities'' = None \<and>
   section_ok relation_ok ''relations'' (JObj relations_only) \<and>
   get_lineage_graph render_atom (Inr (JObj relations_only)) =
     Inr \<lparr>nodes = [],
          edges = [\<lparr>edge_id = ''a1_a2'', edge_source = JStr ''a1'', edge_target = JStr ''a2'',
                     edge_label = JStr ''Unknown'',
                     edge_data = JObj [(''fromEntityGuid'', JStr ''a1''),
                                       (''toEntityGuid'', JStr ''a2'')]\<rparr>]\<rparr> \<and>
   map_of entities_only ''relations'' = None \<and>
   section_ok entity_ok ''entities'' (JObj entities_only) \<and>
   get_lineage_graph render_atom (Inr (JObj entities_only)) =
     Inr \<lparr>nodes = [\<lparr>node_id = JStr ''a1'', node_label = JStr ''Unknown'',
                     node_type = JStr ''Table'',
                     node_data = JObj [(''guid'', JStr ''a1''), (''typeName'', JStr ''Table''),
                                       (''attributes'', JObj [])]\<rparr>],
          edges = []\<rparr>"
proof -
  have r: "map_of relations_only ''entities'' = None \<and>
      section_ok relation_ok ''relations'' (JObj relations_only)"
    by (simp add: relations_only_def shape_defs)
  have e: "map_of entities_only ''relations'' = None \<and>
      section_ok entity_ok ''entities'' (JObj entities_only)"
    by (simp add: entities_only_def shape_defs)
  from missing_sections_are_empty [of render_atom relations_only entities_only] r e
  show ?thesis
    by (simp add: relations_only_def entities_only_def shape_defs)
qed

section \<open>The token cache\<close>

subsection \<open>What a token request stores\<close>

lemma timedelta_seconds_Inr:
  "timedelta_seconds v = Inr d \<Longrightarrow> \<exists>n. seconds_of v = Some n \<and> d = n * 1000000"
  by (cases v) (auto simp: seconds_of_def split: if_splits)

lemma store_token_data_dict:
  "store_token_data s data now = (Inr u, s') \<Longrightarrow> \<exists>kvs. data = JObj kvs"
  by (cases data) (auto simp: store_token_data_def)

lemma store_token_data_Inr:
  assumes "store_token_data s (JObj kvs) now = (Inr u, s')"
  shows "\<exists>n. seconds_of (expires_in_of kvs) = Some n \<and>
           s' = s\<lparr>access_token := (case map_of kvs ''access_token'' of None \<Rightarrow> JNull | Some v \<Rightarrow> v),
                  refresh_token := (case map_of kvs ''refresh_token'' of None \<Rightarrow> JNull | Some v \<Rightarrow> v),
                  token_expiry := Some (now + n * 1000000)\<rparr>"
  using assms
  by (auto simp: store_token_data_def datetime_add_def expires_in_of_def
      split: sum.splits if_splits dest!: timedelta_seconds_Inr)

lemma token_request_Inr:
  assumes "token_request s failure req reply now = (Inr u, s', calls)"
  shows "\<exists>kvs n. reply = Json_body (JObj kvs) \<and> calls = [req] \<and>
           seconds_of (expires_in_of kvs) = Some n \<and>
           s' = s\<lparr>access_token := (case map_of kvs ''access_token'' of None \<Rightarrow> JNull | Some v \<Rightarrow> v),
                  refresh_token := (case map_of kvs ''refresh_token'' of None \<Rightarrow> JNull | Some v \<Rightarrow> v),
                  token_expiry := Some (now + n * 1000000)\<rparr>"
proof (cases reply)
  case (Json_body data)
  with assms have st: "store_token_data s data now = (Inr u, s')" and c: "calls = [req]"
    by (auto simp: token_request_def split: prod.splits)
  from store_token_data_dict [OF st] obtain kvs where d: "data = JObj kvs" by blast
  from store_token_data_Inr [OF st [unfolded d]] Json_body d c show ?thesis by blast
qed (use assms in \<open>auto simp: token_request_def\<close>)

lemma token_request_calls: "calls_of (token_request s failure req reply now) = [req]"
  by (cases reply) (auto simp: token_request_def calls_of_def split: prod.splits)

lemma token_request_config:
  "api_url (state_of (token_request s failure req reply now)) = api_url s"
  by (cases reply)
     (auto simp: token_request_def state_of_def store_token_data_def
        split: prod.splits sum.splits)

lemma mint_Inr:
  assumes "get_new_access_token s reply now = (Inr u, s', calls)"
  shows "\<exists>kvs n. reply = Json_body (JObj kvs) \<and> seconds_of (expires_in_of kvs) = Some n \<and>
           access_token s' = (case map_of kvs ''access_token'' of None \<Rightarrow> JNull | Some v \<Rightarrow> v) \<and>
           token_expiry s' = Some (now + n * 1000000)"
proof -
  from assms obtain req where
    "token_request s ''Authentication failed: '' req reply now = (Inr u, s', calls)"
    by (auto simp: get_new_access_token_def split: sum.splits)
  from token_request_Inr [OF this] show ?thesis by auto
qed

lemma refresh_Inr:
  assumes "refresh_access_token s reply now = (Inr u, s', calls)"
  shows "\<exists>kvs n. reply = Json_body (JObj kvs) \<and> seconds_of (expires_in_of kvs) = Some n \<and>
           token_expiry s' = Some (now + n * 1000000)"
proof -
  from assms obtain req where
    "token_request s ''Token refresh failed: '' req reply now = (Inr u, s', calls)"
    by (auto simp: refresh_access_token_def split: sum.splits)
  from token_request_Inr [OF this] show ?thesis by auto
qed

lemma refresh_calls:
  assumes "api_url s = Some u"
  shows "\<exists>r. calls_of (refresh_access_token s reply now) = [r] \<and> is_refresh_grant r"
  using assms
  by (simp add: refresh_access_token_def endpoint_def token_request_calls is_refresh_grant_def)

lemma mint_calls:
  assumes "api_url s = Some u"
  shows "\<exists>m. calls_of (get_new_access_token s reply now) = [m] \<and> is_credential_grant m"
  using assms
  by (simp add: get_new_access_token_def endpoint_def token_request_calls
      is_credential_grant_def)

lemma refresh_config: "api_url (state_of (refresh_access_token s reply now)) = api_url s"
proof (cases "api_url s")
  case None
  then show ?thesis by (simp add: refresh_access_token_def endpoint_def state_of_def)
next
  case (Some u)
  then show ?thesis by (simp add: refresh_access_token_def endpoint_def token_request_config)
qed

lemma credential_not_refresh: "is_credential_grant c \<Longrightarrow> \<not> is_refresh_grant c"
  by (auto simp: is_credential_grant_def is_refresh_grant_def split: outbound.splits)

subsection \<open>\<open>get_access_token\<close>\<close>

lemma get_access_token_valid:
  "token_valid s (now_check env) \<Longrightarrow> get_access_token s env = (Inr (access_token s), s, [])"
  by (simp add: get_access_token_def)

lemma get_access_token_seq_valid:
  "py_truthy (access_token s) \<Longrightarrow> token_expiry s = Some t \<Longrightarrow>
   \<forall>env\<in>set envs. now_check env < t \<Longrightarrow>
   get_access_token_seq s envs = (map (\<lambda>env. Inr (access_token s)) envs, s, [])"
  by (induction envs) (simp_all add: get_access_token_valid token_valid_def)

lemma mint_and_return_token:
  "mint_and_return s env = (Inr tok, s', calls) \<Longrightarrow> access_token s' = tok"
  by (auto simp: mint_and_return_def split: prod.splits sum.splits)

lemma mint_and_return_calls:
  "calls_of (mint_and_return s env) =
     calls_of (get_new_access_token s (mint_reply env) (mint_now env))"
  by (simp add: mint_and_return_def calls_of_def split: prod.splits sum.splits)

lemma get_access_token_token:
  "get_access_token s env = (Inr tok, s', calls) \<Longrightarrow> access_token s' = tok"
  by (auto simp: get_access_token_def split: if_splits prod.splits sum.splits
      dest: mint_and_return_token)

text \<open>
  Claim C1. While the cache is valid, that is, the cached access token passes the
  code's test \<open>if self._access_token\<close> (it is present and not empty) and the clock of every
  call is before the expiry \<open>t\<close>: every call of a sequence returns the cached token,
  leaves the object as it was and makes no outbound call. And when a call has returned
  a token \<open>tok\<close> (after a mint or a refresh), the calls that follow it before the expiry
  return \<open>tok\<close> again, and the outbound calls of the whole sequence are those of that
  first call alone.
\<close>

theorem cached_token_reused:
  assumes "\<forall>env\<in>set envs. now_check env < t"
  shows "(py_truthy (access_token s) \<and> token_expiry s = Some t \<longrightarrow>
            get_access_token_seq s envs = (map (\<lambda>env. Inr (access_token s)) envs, s, []))
       \<and> (get_access_token s0 env0 = (Inr tok, s, calls) \<and> py_truthy tok \<and>
          token_expiry s = Some t \<longrightarrow>
            get_access_token_seq s0 (env0 # envs) =
              (Inr tok # map (\<lambda>env. Inr tok) envs, s, calls))"
proof (intro conjI impI)
  assume "py_truthy (access_token s) \<and> token_expiry s = Some t"
  with assms show "get_access_token_seq s envs = (map (\<lambda>env. Inr (access_token s)) envs, s, [])"
    by (simp add: get_access_token_seq_valid)
next
  assume a: "get_access_token s0 env0 = (Inr tok, s, calls) \<and> py_truthy tok \<and>
    token_expiry s = Some t"
  then have tok: "access_token s = tok" by (blast dest: get_access_token_token)
  with a assms have "get_access_token_seq s envs = (map (\<lambda>env. Inr tok) envs, s, [])"
    using get_access_token_seq_valid [of s t envs] by simp
  with a show "get_access_token_seq s0 (env0 # envs) =
      (Inr tok # map (\<lambda>env. Inr tok) envs, s, calls)"
    by simp
qed

theorem cached_token_reused_witness:
  "now_check (example_world 2000 (Json_body JNull)) < 60001000
   \<and> now_check (example_world 60000999 (Json_body JNull)) < 60001000
   \<and> py_truthy (access_token example_cached) \<and> token_expiry example_cached = Some 60001000
   \<and> get_access_token_seq example_cached
        [example_world 2000 (Json_body JNull), example_world 60000999 (Json_body JNull)] =
       ([Inr (JStr ''t1''), Inr (JStr ''t1'')], example_cached, [])
   \<and> get_access_token (init example_config) (example_world 1000 (Json_body (JObj example_body))) =
       (Inr (JStr ''t1''), example_cached, [example_mint_post])
   \<and> get_access_token_seq (init example_config)
        [example_world 1000 (Json_body (JObj example_body)),
         example_world 2000 (Json_body JNull), example_world 60000999 (Json_body JNull)] =
       ([Inr (JStr ''t1''), Inr (JStr ''t1''), Inr (JStr ''t1'')], example_cached,
        [example_mint_post])"
proof -
  have h: "\<forall>env\<in>set [example_world 2000 (Json_body JNull),
      example_world 60000999 (Json_body JNull)]. now_check env < 60001000"
    by (simp add: example_world_def)
  have v: "py_truthy (access_token example_cached) \<and> token_expiry example_cached = Some 60001000"
    by (simp add: example_cached_def)
  have f: "get_access_token (init example_config)
      (example_world 1000 (Json_body (JObj example_body))) =
       (Inr (JStr ''t1''), example_cached, [example_mint_post])"
    by (simp add: example_defs token_defs)
  have t: "py_truthy (JStr ''t1'')" by simp
  from cached_token_reused [OF h, of example_cached "init example_config"
      "example_world 1000 (Json_body (JObj example_body))" "JStr ''t1''" "[example_mint_post]"]
    v f t
  have "get_access_token_seq example_cached
        [example_world 2000 (Json_body JNull), example_world 60000999 (Json_body JNull)] =
       ([Inr (JStr ''t1''), Inr (JStr ''t1'')], example_cached, [])
     \<and> get_access_token_seq (init example_config)
        [example_world 1000 (Json_body (JObj example_body)),
         example_world 2000 (Json_body JNull), example_world 60000999 (Json_body JNull)] =
       ([Inr (JStr ''t1''), Inr (JStr ''t1''), Inr (JStr ''t1'')], example_cached,
        [example_mint_post])"
    by (simp add: example_cached_def)
  with h v f show ?thesis by simp
qed

subsection \<open>A cached token implies a base URL\<close>

text \<open>
  The base URL never changes, and without one no method gets as far as writing the
  cache. So in every state a service can reach, a refresh token in the cache means that
  the base URL is configured.
\<close>

lemma mint_config: "api_url (state_of (get_new_access_token s reply now)) = api_url s"
proof (cases "api_url s")
  case None
  then show ?thesis by (simp add: get_new_access_token_def endpoint_def state_of_def)
next
  case (Some u)
  then show ?thesis by (simp add: get_new_access_token_def endpoint_def token_request_config)
qed

lemma mint_and_return_config: "api_url (state_of (mint_and_return s env)) = api_url s"
  using mint_config [of s "mint_reply env" "mint_now env"]
  by (auto simp: mint_and_return_def state_of_def split: prod.splits sum.splits)

lemma get_access_token_config: "api_url (state_of (get_access_token s env)) = api_url s"
proof -
  obtain res s1 calls1 where rf:
    "refresh_access_token s (refresh_reply env) (refresh_now env) = (res, s1, calls1)"
    by (cases "refresh_access_token s (refresh_reply env) (refresh_now env)") auto
  with refresh_config [of s "refresh_reply env" "refresh_now env"]
  have u1: "api_url s1 = api_url s" by (simp add: state_of_def)
  from mint_and_return_config [of s1 env] mint_and_return_config [of s env] u1 rf
  show ?thesis
    by (auto simp: get_access_token_def state_of_def split: prod.splits sum.splits)
qed

lemma get_access_token_no_url:
  "api_url s = None \<Longrightarrow> cache_empty s \<Longrightarrow> state_of (get_access_token s env) = s"
  by (simp add: cache_empty_def get_access_token_def token_valid_def mint_and_return_def
      get_new_access_token_def endpoint_def state_of_def)

lemma get_headers_state:
  "state_of (get_headers render s env) = s \<or>
   state_of (get_headers render s env) = state_of (get_access_token s env)"
  by (auto simp: get_headers_def state_of_def Let_def
      split: option.splits list.splits prod.splits sum.splits)

lemma validate_token_state: "state_of (validate_token render s tok outcome) = s"
  by (simp add: validate_token_def endpoint_def state_of_def Let_def
      split: option.splits get_outcome.splits)

lemma reachable_cache: "reachable s \<Longrightarrow> api_url s = None \<Longrightarrow> cache_empty s"
proof (induction rule: reachable.induct)
  case (created config)
  then show ?case by (simp add: init_def cache_empty_def)
next
  case (token s env)
  then have n: "api_url s = None" by (simp add: get_access_token_config)
  with token have "cache_empty s" by simp
  with n show ?case by (simp add: get_access_token_no_url)
next
  case (headers s render env)
  from get_headers_state [of render s env] show ?case
  proof
    assume "state_of (get_headers render s env) = s"
    with headers show ?thesis by simp
  next
    assume e: "state_of (get_headers render s env) = state_of (get_access_token s env)"
    with headers have n: "api_url s = None" by (simp add: get_access_token_config)
    with headers have "cache_empty s" by simp
    with n e show ?thesis by (simp add: get_access_token_no_url)
  qed
next
  case (validated s render tok outcome)
  then show ?case by (simp add: validate_token_state)
qed

lemma reachable_refresh_token_has_url:
  "reachable s \<or> api_url s \<noteq> None \<Longrightarrow> py_truthy (refresh_token s) \<Longrightarrow>
     \<exists>u. api_url s = Some u"
  using reachable_cache [of s] by (cases "api_url s") (auto simp: cache_empty_def)

lemma example_stale_reachable: "reachable example_stale"
proof -
  have "state_of (get_access_token (init example_config) example_first_world) = example_stale"
    by (simp add: example_defs token_defs state_of_def)
  with reachable.token [OF reachable.created, of example_config example_first_world]
  show ?thesis by simp
qed

text \<open>
  Claim C2. A call made when the cached token is not valid and a refresh token is
  present, on a service in a state it can reach through its methods (or in any state
  with a base URL configured), makes its outbound calls in this order: first one
  refresh-grant request, and after it nothing, or one credential-grant request, which is
  not a refresh-grant request. So exactly one refresh attempt is made, and it comes
  before any mint attempt.
\<close>

theorem refresh_before_mint:
  assumes "reachable s \<or> api_url s \<noteq> None"
    and "\<not> token_valid s (now_check env)" and "py_truthy (refresh_token s)"
  shows "\<exists>r rest. calls_of (get_access_token s env) = r # rest \<and> is_refresh_grant r \<and>
           (rest = [] \<or> (\<exists>m. rest = [m] \<and> is_credential_grant m \<and> \<not> is_refresh_grant m))"
proof -
  from reachable_refresh_token_has_url [OF assms(1) assms(3)]
  obtain u where u: "api_url s = Some u" by blast
  obtain res s1 calls1 where rf:
    "refresh_access_token s (refresh_reply env) (refresh_now env) = (res, s1, calls1)"
    by (cases "refresh_access_token s (refresh_reply env) (refresh_now env)") auto
  from refresh_calls [OF u, of "refresh_reply env" "refresh_now env"] rf
  obtain r where r: "calls1 = [r]" "is_refresh_grant r"
    by (auto simp: calls_of_def)
  from refresh_config [of s "refresh_reply env" "refresh_now env"] rf u
  have u1: "api_url s1 = Some u" by (simp add: state_of_def)
  show ?thesis
  proof (cases res)
    case (Inr v)
    with assms rf r show ?thesis
      by (simp add: get_access_token_def calls_of_def)
  next
    case (Inl e)
    from mint_calls [OF u1, of "mint_reply env" "mint_now env"]
    obtain m where m: "calls_of (mint_and_return s1 env) = [m]" "is_credential_grant m"
      by (auto simp: mint_and_return_calls)
    with Inl assms rf r show ?thesis
      by (auto simp: get_access_token_def calls_of_def credential_not_refresh
          split: prod.splits)
  qed
qed

theorem refresh_before_mint_witness:
  "reachable example_stale
   \<and> \<not> token_valid example_stale (now_check (example_world 1000 (Json_body (JObj example_body))))
   \<and> py_truthy (refresh_token example_stale)
   \<and> (\<exists>r rest. calls_of (get_access_token example_stale
                   (example_world 1000 (Json_body (JObj example_body)))) = r # rest \<and>
         is_refresh_grant r \<and>
         (rest = [] \<or> (\<exists>m. rest = [m] \<and> is_credential_grant m \<and> \<not> is_refresh_grant m)))
   \<and> calls_of (get_access_token example_stale
         (example_world 1000 (Json_body (JObj example_body)))) =
       [example_refresh_post, example_mint_post]"
proof -
  have h0: "reachable example_stale \<or> api_url example_stale \<noteq> None"
    using example_stale_reachable by simp
  have h1: "\<not> token_valid example_stale
      (now_check (example_world 1000 (Json_body (JObj example_body))))"
    by (simp add: example_defs token_valid_def)
  have h2: "py_truthy (refresh_token example_stale)"
    by (simp add: example_defs)
  have c: "calls_of (get_access_token example_stale
         (example_world 1000 (Json_body (JObj example_body)))) =
       [example_refresh_post, example_mint_post]"
    by (simp add: example_defs token_defs calls_of_def)
  from refresh_before_mint [OF h0 h1 h2] example_stale_reachable h1 h2 c
  show ?thesis by blast
qed

text \<open>
  Claim C3. When the refresh attempt of a call fails (with any exception, \<open>e\<close>), the
  call goes on to mint: its result and the object afterwards are those of the mint run
  on the object the refresh left, and its outbound calls are those of the refresh followed
  by those of the mint, one credential-grant request (the service being in a state it can
  reach, or the base URL being configured).
  The token returned is the \<open>access_token\<close> of the mint's response. The refresh failure is
  not raised; a failure of the mint is: whatever the mint raises is the result, and a
  request error of the mint is raised as \<open>Exception("Authentication failed: ...")\<close>.
  Said in terms of \<open>_get_new_access_token\<close> itself: when the mint returns, leaving the
  object \<open>s2\<close>, the call returns the token cached in \<open>s2\<close>, which is the \<open>access_token\<close> of
  the mint's response, and leaves \<open>s2\<close>; when the mint raises, the call raises the same
  exception and leaves the object the mint left.
\<close>

theorem refresh_failure_falls_back:
  assumes "reachable s \<or> api_url s \<noteq> None"
    and "\<not> token_valid s (now_check env)" and "py_truthy (refresh_token s)"
    and "refresh_access_token s (refresh_reply env) (refresh_now env) = (Inl e, s1, calls1)"
  shows "result_of (get_access_token s env) = result_of (mint_and_return s1 env)
       \<and> state_of (get_access_token s env) = state_of (mint_and_return s1 env)
       \<and> calls_of (get_access_token s env) =
           calls1 @ calls_of (get_new_access_token s1 (mint_reply env) (mint_now env))
       \<and> (\<exists>m. calls_of (get_new_access_token s1 (mint_reply env) (mint_now env)) = [m]
              \<and> is_credential_grant m)
       \<and> (mint_reply env = Json_body (JObj kvs) \<and>
          result_of (get_access_token s env) = Inr tok \<longrightarrow>
            tok = (case map_of kvs ''access_token'' of None \<Rightarrow> JNull | Some v \<Rightarrow> v))
       \<and> (mint_reply env = Request_exception msg \<longrightarrow>
            result_of (get_access_token s env) =
              Inl (Exception (''Authentication failed: '' @ msg)))
       \<and> (result_of (get_new_access_token s1 (mint_reply env) (mint_now env)) = Inl e2 \<longrightarrow>
            result_of (get_access_token s env) = Inl e2)
       \<and> (get_new_access_token s1 (mint_reply env) (mint_now env) = (Inr (), s2, calls2) \<longrightarrow>
            get_access_token s env = (Inr (access_token s2), s2, calls1 @ calls2))
       \<and> (get_new_access_token s1 (mint_reply env) (mint_now env) = (Inr (), s2, calls2) \<and>
          mint_reply env = Json_body (JObj kvs2) \<longrightarrow>
            result_of (get_access_token s env) =
              Inr (case map_of kvs2 ''access_token'' of None \<Rightarrow> JNull | Some v \<Rightarrow> v))
       \<and> (get_new_access_token s1 (mint_reply env) (mint_now env) = (Inl e3, s3, calls3) \<longrightarrow>
            get_access_token s env = (Inl e3, s3, calls1 @ calls3))"
proof -
  from assms have eq: "get_access_token s env =
      (case mint_and_return s1 env of (r, s2, calls2) \<Rightarrow> (r, s2, calls1 @ calls2))"
    by (simp add: get_access_token_def)
  from reachable_refresh_token_has_url [OF assms(1) assms(3)]
  obtain u where u: "api_url s = Some u" by blast
  from refresh_config [of s "refresh_reply env" "refresh_now env"] assms(4) u
  have u1: "api_url s1 = Some u" by (simp add: state_of_def)
  have A: "result_of (get_access_token s env) = result_of (mint_and_return s1 env)"
    and B: "state_of (get_access_token s env) = state_of (mint_and_return s1 env)"
    and C: "calls_of (get_access_token s env) =
           calls1 @ calls_of (get_new_access_token s1 (mint_reply env) (mint_now env))"
    by (simp_all add: eq result_of_def state_of_def calls_of_def mint_and_return_def
        split: prod.splits sum.splits)
  have D: "\<exists>m. calls_of (get_new_access_token s1 (mint_reply env) (mint_now env)) = [m]
              \<and> is_credential_grant m"
    using mint_calls [OF u1] by simp
  have E: "mint_reply env = Json_body (JObj kvs) \<and>
          result_of (get_access_token s env) = Inr tok \<longrightarrow>
            tok = (case map_of kvs ''access_token'' of None \<Rightarrow> JNull | Some v \<Rightarrow> v)"
  proof
    assume h: "mint_reply env = Json_body (JObj kvs) \<and>
      result_of (get_access_token s env) = Inr tok"
    then have "result_of (mint_and_return s1 env) = Inr tok" by (simp add: A)
    then obtain s2 calls2 where
      g: "get_new_access_token s1 (mint_reply env) (mint_now env) = (Inr (), s2, calls2)"
      and t: "tok = access_token s2"
      by (auto simp: mint_and_return_def result_of_def split: prod.splits sum.splits)
    from mint_Inr [OF g] h t
    show "tok = (case map_of kvs ''access_token'' of None \<Rightarrow> JNull | Some v \<Rightarrow> v)"
      by auto
  qed
  have F: "mint_reply env = Request_exception msg \<longrightarrow>
            result_of (get_access_token s env) =
              Inl (Exception (''Authentication failed: '' @ msg))"
    unfolding A using u1
    by (simp add: mint_and_return_def get_new_access_token_def endpoint_def token_request_def
        result_of_def)
  have G: "result_of (get_new_access_token s1 (mint_reply env) (mint_now env)) = Inl e2 \<longrightarrow>
            result_of (get_access_token s env) = Inl e2"
    unfolding A
    by (auto simp: mint_and_return_def result_of_def split: prod.splits sum.splits)
  have H: "get_new_access_token s1 (mint_reply env) (mint_now env) = (Inr (), s2, calls2) \<longrightarrow>
            get_access_token s env = (Inr (access_token s2), s2, calls1 @ calls2)"
    by (simp add: eq mint_and_return_def)
  have I: "get_new_access_token s1 (mint_reply env) (mint_now env) = (Inr (), s2, calls2) \<and>
          mint_reply env = Json_body (JObj kvs2) \<longrightarrow>
            result_of (get_access_token s env) =
              Inr (case map_of kvs2 ''access_token'' of None \<Rightarrow> JNull | Some v \<Rightarrow> v)"
  proof
    assume h: "get_new_access_token s1 (mint_reply env) (mint_now env) = (Inr (), s2, calls2) \<and>
      mint_reply env = Json_body (JObj kvs2)"
    then have g: "get_new_access_token s1 (mint_reply env) (mint_now env) = (Inr (), s2, calls2)"
      by blast
    with H have "get_access_token s env = (Inr (access_token s2), s2, calls1 @ calls2)"
      by blast
    then have r: "result_of (get_access_token s env) = Inr (access_token s2)"
      by (simp add: result_of_def)
    from mint_Inr [OF g] h
    have "access_token s2 = (case map_of kvs2 ''access_token'' of None \<Rightarrow> JNull | Some v \<Rightarrow> v)"
      by auto
    with r show "result_of (get_access_token s env) =
        Inr (case map_of kvs2 ''access_token'' of None \<Rightarrow> JNull | Some v \<Rightarrow> v)"
      by simp
  qed
  have J: "get_new_access_token s1 (mint_reply env) (mint_now env) = (Inl e3, s3, calls3) \<longrightarrow>
            get_access_token s env = (Inl e3, s3, calls1 @ calls3)"
    by (simp add: eq mint_and_return_def)
  from A B C D E F G H I J show ?thesis by blast
qed

theorem refresh_failure_falls_back_witness:
  "\<not> token_valid example_stale (now_check (example_world 1000 (Json_body (JObj example_body))))
   \<and> py_truthy (refresh_token example_stale)
   \<and> refresh_access_token example_stale (Request_exception ''503 Server Error'') 1000 =
       (Inl (Exception ''Token refresh failed: 503 Server Error''), example_stale,
        [example_refresh_post])
   \<and> reachable example_stale
   \<and> get_new_access_token example_stale (Json_body (JObj example_body)) 1000 =
       (Inr (), example_cached, [example_mint_post])
   \<and> get_access_token example_stale (example_world 1000 (Json_body (JObj example_body))) =
       (Inr (JStr ''t1''), example_cached, [example_refresh_post, example_mint_post])
   \<and> access_token example_cached = JStr ''t1''
   \<and> JStr ''t1'' = (case map_of example_body ''access_token'' of None \<Rightarrow> JNull | Some v \<Rightarrow> v)
   \<and> get_new_access_token example_stale (Request_exception ''401 Client Error'') 1000 =
       (Inl (Exception ''Authentication failed: 401 Client Error''), example_stale,
        [example_mint_post])
   \<and> get_access_token example_stale
        (example_world 1000 (Request_exception ''401 Client Error'')) =
       (Inl (Exception ''Authentication failed: 401 Client Error''), example_stale,
        [example_refresh_post, example_mint_post])"
proof -
  let ?A = "example_world 1000 (Json_body (JObj example_body))"
  let ?B = "example_world 1000 (Request_exception ''401 Client Error'')"
  have h0: "reachable example_stale \<or> api_url example_stale \<noteq> None"
    using example_stale_reachable by simp
  have h1: "\<not> token_valid example_stale (now_check ?A)"
    and h1': "\<not> token_valid example_stale (now_check ?B)"
    by (simp_all add: example_defs token_valid_def)
  have h2: "py_truthy (refresh_token example_stale)"
    by (simp add: example_defs)
  have h3: "refresh_access_token example_stale (refresh_reply ?A) (refresh_now ?A) =
       (Inl (Exception ''Token refresh failed: 503 Server Error''), example_stale,
        [example_refresh_post])"
    and h3': "refresh_access_token example_stale (refresh_reply ?B) (refresh_now ?B) =
       (Inl (Exception ''Token refresh failed: 503 Server Error''), example_stale,
        [example_refresh_post])"
    by (simp_all add: example_defs get_new_access_token_def refresh_access_token_def
        endpoint_def token_request_def of_config_def)
  have ga: "get_new_access_token example_stale (mint_reply ?A) (mint_now ?A) =
      (Inr (), example_cached, [example_mint_post])"
    and gb: "get_new_access_token example_stale (mint_reply ?B) (mint_now ?B) =
      (Inl (Exception ''Authentication failed: 401 Client Error''), example_stale,
       [example_mint_post])"
    by (simp_all add: example_defs get_new_access_token_def endpoint_def token_request_def
        of_config_def store_token_data_def datetime_add_def datetime_end_def)
  have ma: "mint_reply ?A = Json_body (JObj example_body)"
    and mb: "mint_reply ?B = Request_exception ''401 Client Error''"
    by (simp_all add: example_world_def)
  have tc: "access_token example_cached = JStr ''t1''"
    by (simp add: example_cached_def)
  note T = refresh_failure_falls_back [OF h0 h1 h2 h3, where ?s2.0 = example_cached
      and ?calls2.0 = "[example_mint_post]" and ?kvs2.0 = example_body]
  from T ga have ra0: "get_access_token example_stale ?A =
       (Inr (access_token example_cached), example_cached,
        [example_refresh_post] @ [example_mint_post])"
    by blast
  from T ga ma have "result_of (get_access_token example_stale ?A) =
       Inr (case map_of example_body ''access_token'' of None \<Rightarrow> JNull | Some v \<Rightarrow> v)"
    by blast
  with ra0 tc have ta: "JStr ''t1'' =
       (case map_of example_body ''access_token'' of None \<Rightarrow> JNull | Some v \<Rightarrow> v)"
    by (simp add: result_of_def)
  from ra0 tc have ra: "get_access_token example_stale ?A =
       (Inr (JStr ''t1''), example_cached, [example_refresh_post, example_mint_post])"
    by simp
  note U = refresh_failure_falls_back [OF h0 h1' h2 h3',
      where ?e3.0 = "Exception ''Authentication failed: 401 Client Error''"
      and ?s3.0 = example_stale and ?calls3.0 = "[example_mint_post]"
      and msg = "''401 Client Error''"]
  from U gb have rb0: "get_access_token example_stale ?B =
       (Inl (Exception ''Authentication failed: 401 Client Error''), example_stale,
        [example_refresh_post] @ [example_mint_post])"
    by blast
  then have rb: "get_access_token example_stale ?B =
       (Inl (Exception ''Authentication failed: 401 Client Error''), example_stale,
        [example_refresh_post, example_mint_post])"
    by simp
  from example_stale_reachable h1 h2 h3 ga gb ra tc ta rb show ?thesis
    by (simp add: example_world_def)
qed

text \<open>
  Claim C9. When a mint or a refresh returns without raising, the response was a
  mapping, its \<open>expires_in\<close> (3600 when the key is missing) stands for a number \<open>n\<close> of
  seconds, and the expiry stored is the clock read after the response plus \<open>n\<close> seconds
  (times are counted in microseconds).
\<close>

theorem expiry_is_now_plus_expires_in:
  "(get_new_access_token s reply now = (Inr u, s', calls) \<longrightarrow>
      (\<exists>kvs n. reply = Json_body (JObj kvs) \<and> seconds_of (expires_in_of kvs) = Some n
         \<and> token_expiry s' = Some (now + n * 1000000)))
 \<and> (refresh_access_token s reply now = (Inr u, s', calls) \<longrightarrow>
      (\<exists>kvs n. reply = Json_body (JObj kvs) \<and> seconds_of (expires_in_of kvs) = Some n
         \<and> token_expiry s' = Some (now + n * 1000000)))
 \<and> (map_of kvs0 ''expires_in'' = None \<longrightarrow> seconds_of (expires_in_of kvs0) = Some 3600)"
proof (intro conjI impI)
  assume "get_new_access_token s reply now = (Inr u, s', calls)"
  from mint_Inr [OF this]
  show "\<exists>kvs n. reply = Json_body (JObj kvs) \<and> seconds_of (expires_in_of kvs) = Some n
         \<and> token_expiry s' = Some (now + n * 1000000)"
    by blast
next
  assume "refresh_access_token s reply now = (Inr u, s', calls)"
  from refresh_Inr [OF this]
  show "\<exists>kvs n. reply = Json_body (JObj kvs) \<and> seconds_of (expires_in_of kvs) = Some n
         \<and> token_expiry s' = Some (now + n * 1000000)"
    by blast
next
  assume "map_of kvs0 ''expires_in'' = None"
  then show "seconds_of (expires_in_of kvs0) = Some 3600"
    by (simp add: expires_in_of_def seconds_of_def)
qed

theorem expiry_is_now_plus_expires_in_witness:
  "get_new_access_token (init example_config) (Json_body (JObj example_body)) 1000 =
     (Inr (), example_cached, [example_mint_post])
   \<and> token_expiry example_cached = Some (1000 + 60 * 1000000)
   \<and> refresh_access_token example_stale (Json_body (JObj example_body)) 1000 =
     (Inr (), example_cached, [example_refresh_post])
   \<and> map_of [(''access_token'', JStr ''t2'')] ''expires_in'' = None
   \<and> get_new_access_token (init example_config)
        (Json_body (JObj [(''access_token'', JStr ''t2'')])) 1000 =
     (Inr (), (init example_config)\<lparr>access_token := JStr ''t2'',
                                     token_expiry := Some (1000 + 3600 * 1000000)\<rparr>,
      [example_mint_post])"
proof -
  have m: "get_new_access_token (init example_config) (Json_body (JObj example_body)) 1000 =
     (Inr (), example_cached, [example_mint_post])"
    by (simp add: example_defs token_defs)
  have r: "refresh_access_token example_stale (Json_body (JObj example_body)) 1000 =
     (Inr (), example_cached, [example_refresh_post])"
    by (simp add: example_defs token_defs)
  have d: "get_new_access_token (init example_config)
        (Json_body (JObj [(''access_token'', JStr ''t2'')])) 1000 =
     (Inr (), (init example_config)\<lparr>access_token := JStr ''t2'',
                                     token_expiry := Some (1000 + 3600 * 1000000)\<rparr>,
      [example_mint_post])"
    by (simp add: example_defs token_defs)
  have k: "map_of [(''access_token'', JStr ''t2'')] ''expires_in'' = None" by simp
  from expiry_is_now_plus_expires_in [of "init example_config" "Json_body (JObj example_body)"
      1000 "()" example_cached "[example_mint_post]" "[(''access_token'', JStr ''t2'')]"] m
  obtain n where "seconds_of (expires_in_of example_body) = Some n"
    and "token_expiry example_cached = Some (1000 + n * 1000000)"
    by auto
  then have e: "token_expiry example_cached = Some (1000 + 60 * 1000000)"
    by (simp add: example_body_def expires_in_of_def seconds_of_def)
  from m e r k d show ?thesis by simp
qed

text \<open>
  Claim C10. A mint or a refresh whose request fails with a request error leaves the
  object, and so the three cached fields, exactly as it was, and raises. The same holds
  when the request fails with any other exception: the cache is written only after the
  response has been received and parsed.
\<close>

theorem failed_request_keeps_state:
  "state_of (get_new_access_token s (Request_exception m) now) = s
 \<and> state_of (refresh_access_token s (Request_exception m) now) = s
 \<and> (\<exists>e. result_of (get_new_access_token s (Request_exception m) now) = Inl e)
 \<and> (\<exists>e. result_of (refresh_access_token s (Request_exception m) now) = Inl e)
 \<and> state_of (get_new_access_token s (Other_exception e') now) = s
 \<and> state_of (refresh_access_token s (Other_exception e') now) = s"
  by (cases "api_url s")
     (simp_all add: get_new_access_token_def refresh_access_token_def endpoint_def
        token_request_def state_of_def result_of_def)

subsection \<open>\<open>validate_token\<close> and \<open>get_headers\<close>\<close>

text \<open>
  Claim C6. On a service whose base URL is configured, so that the GET is issued:
  for every token and every outcome of the GET, \<open>validate_token\<close> returns a boolean and
  never raises; the boolean is \<open>True\<close> exactly when the outcome is a response with status
  200, and \<open>False\<close> for every other status and for every exception.
\<close>

theorem validate_token_status:
  assumes "api_url s = Some u"
  shows "result_of (validate_token render s token outcome) = Inr (outcome = Get_status 200)
       \<and> state_of (validate_token render s token outcome) = s"
  using assms
  by (cases outcome) (simp_all add: validate_token_def endpoint_def result_of_def state_of_def)

theorem validate_token_status_witness:
  "api_url (init example_config) = Some ''https://tenant.atlan.com/api/meta''
   \<and> validate_token render_atom (init example_config) (JStr ''t1'') (Get_status 200) =
       (Inr True, init example_config,
        [Get ''https://tenant.atlan.com/api/v2/users/current''
           [(''Authorization'', ''Bearer t1'')]])
   \<and> result_of (validate_token render_atom (init example_config) (JStr ''t1'')
        (Get_status 404)) = Inr False
   \<and> result_of (validate_token render_atom (init example_config) (JStr ''t1'')
        (Get_raises (Exception ''Read timed out''))) = Inr False"
proof -
  have u: "api_url (init example_config) = Some ''https://tenant.atlan.com/api/meta''"
    by (simp add: example_defs)
  have c: "calls_of (validate_token render_atom (init example_config) (JStr ''t1'')
       (Get_status 200)) =
     [Get ''https://tenant.atlan.com/api/v2/users/current'' [(''Authorization'', ''Bearer t1'')]]"
    by (simp add: example_defs validate_token_def endpoint_def calls_of_def)
  from validate_token_status [OF u, of render_atom "JStr ''t1''" "Get_status 200"]
    validate_token_status [OF u, of render_atom "JStr ''t1''" "Get_status 404"]
    validate_token_status [OF u, of render_atom "JStr ''t1''"
      "Get_raises (Exception ''Read timed out'')"] u c
  show ?thesis
    by (auto simp: result_of_def state_of_def calls_of_def prod_eq_iff)
qed

text \<open>
  Claim C7. With a static API key configured (a non-empty string), \<open>get_headers\<close>
  returns \<open>Content-Type\<close>, \<open>Accept\<close> and \<open>X-Atlan-API-Key\<close>, whatever the cache, the client
  id and secret and the world are, with no outbound call and the object unchanged: the
  token path is not entered. Without a key it returns \<open>Content-Type\<close>, \<open>Accept\<close> and one
  \<open>Authorization: Bearer\<close> header made of the token that \<open>get_access_token\<close> returns, and
  raises what \<open>get_access_token\<close> raises.
\<close>

theorem get_headers_modes:
  "(api_key s = Some k \<and> k \<noteq> [] \<longrightarrow>
      get_headers render s env =
        (Inr [(''Content-Type'', ''application/json''), (''Accept'', ''application/json''),
              (''X-Atlan-API-Key'', k)], s, []))
 \<and> ((api_key s = None \<or> api_key s = Some []) \<and>
    get_access_token s env = (Inr tok, s', calls) \<longrightarrow>
      get_headers render s env =
        (Inr [(''Content-Type'', ''application/json''), (''Accept'', ''application/json''),
              (''Authorization'', ''Bearer '' @ py_str render tok)], s', calls))
 \<and> ((api_key s = None \<or> api_key s = Some []) \<and>
    get_access_token s env = (Inl e, s', calls) \<longrightarrow>
      get_headers render s env = (Inl e, s', calls))"
  by (cases k) (auto simp: get_headers_def)

theorem get_headers_modes_witness:
  "api_key example_keyed = Some ''k-123'' \<and> client_id example_keyed = None
   \<and> client_secret example_keyed = None
   \<and> get_headers render_atom example_keyed (example_world 1000 (Json_body (JObj example_body))) =
       (Inr [(''Content-Type'', ''application/json''), (''Accept'', ''application/json''),
             (''X-Atlan-API-Key'', ''k-123'')], example_keyed, [])
   \<and> api_key (init example_config) = None
   \<and> get_headers render_atom (init example_config)
        (example_world 1000 (Json_body (JObj example_body))) =
       (Inr [(''Content-Type'', ''application/json''), (''Accept'', ''application/json''),
             (''Authorization'', ''Bearer t1'')], example_cached, [example_mint_post])
   \<and> get_headers render_atom (init example_config)
        (example_world 1000 (Request_exception ''401 Client Error'')) =
       (Inl (Exception ''Authentication failed: 401 Client Error''), init example_config,
        [example_mint_post])"
proof -
  let ?A = "example_world 1000 (Json_body (JObj example_body))"
  let ?B = "example_world 1000 (Request_exception ''401 Client Error'')"
  have k: "api_key example_keyed = Some ''k-123'' \<and> client_id example_keyed = None
      \<and> client_secret example_keyed = None"
    by (simp add: example_defs)
  have n: "api_key (init example_config) = None"
    by (simp add: example_defs)
  have a: "get_access_token (init example_config) ?A =
      (Inr (JStr ''t1''), example_cached, [example_mint_post])"
    and b: "get_access_token (init example_config) ?B =
      (Inl (Exception ''Authentication failed: 401 Client Error''), init example_config,
       [example_mint_post])"
    by (simp_all add: example_defs token_defs)
  from get_headers_modes [of example_keyed "''k-123''" render_atom ?A] k
  have 1: "get_headers render_atom example_keyed ?A =
       (Inr [(''Content-Type'', ''application/json''), (''Accept'', ''application/json''),
             (''X-Atlan-API-Key'', ''k-123'')], example_keyed, [])"
    by simp
  from get_headers_modes [of "init example_config" "[]" render_atom ?A "JStr ''t1''"
      example_cached "[example_mint_post]"] n a
  have 2: "get_headers render_atom (init example_config) ?A =
       (Inr [(''Content-Type'', ''application/json''), (''Accept'', ''application/json''),
             (''Authorization'', ''Bearer t1'')], example_cached, [example_mint_post])"
    by simp
  from get_headers_modes [where s = "init example_config" and render = render_atom
      and env = ?B and e = "Exception ''Authentication failed: 401 Client Error''"
      and s' = "init example_config" and calls = "[example_mint_post]"] n b
  have 3: "get_headers render_atom (init example_config) ?B =
       (Inl (Exception ''Authentication failed: 401 Client Error''), init example_config,
        [example_mint_post])"
    by simp
  from k n 1 2 3 show ?thesis by simp
qed

end
